theory Spec2Isabelle
  imports Main "HOL-Library.Sublist"
begin

section \<open>JavaScript values shared by the three components\<close>

text \<open>
  A value caught by a \<^verbatim>\<open>catch (e)\<close> clause is seen by the source only through
  \<^verbatim>\<open>e?.message\<close> and \<^verbatim>\<open>String(e)\<close>; the model keeps exactly these two views.
  \<open>message\<close> is \<open>None\<close> when the value is null, undefined or has no message.
\<close>

datatype thrown = Thrown (message: "string option") (as_string: string)

text \<open>JavaScript truthiness of an optional string: absent and empty are both falsy.\<close>

definition truthy :: "string option \<Rightarrow> bool" where
  "truthy v = (case v of None \<Rightarrow> False | Some s \<Rightarrow> s \<noteq> [])"

text \<open>\<^verbatim>\<open>String(e?.message || e)\<close>\<close>

definition error_text :: "thrown \<Rightarrow> string" where
  "error_text e = (if truthy (message e) then the (message e) else as_string e)"

text \<open>
  \<^verbatim>\<open>new Error(msg)\<close>: its string form is \<^verbatim>\<open>Error: msg\<close>, and \<^verbatim>\<open>Error\<close> alone when
  the message is empty.
\<close>

definition new_Error :: "string \<Rightarrow> thrown" where
  "new_Error msg = Thrown (Some msg) (if msg = [] then ''Error'' else ''Error: '' @ msg)"

text \<open>
  An awaited external promise: it fulfils or rejects some number of milliseconds after it
  was created, or it never settles.
\<close>

datatype 'a promise = Fulfills nat 'a | Rejects nat thrown | NeverSettles

fun settles_within :: "nat \<Rightarrow> 'a promise \<Rightarrow> bool" where
  "settles_within d (Fulfills t v) = (t \<le> d)"
| "settles_within d (Rejects t e) = (t \<le> d)"
| "settles_within d NeverSettles = False"

text \<open>
  \<^verbatim>\<open>Promise.race([p, new Promise((_, reject) => setTimeout(() => reject(e), d))])\<close>:
  the race settles as whichever settles first. The external promise is created before
  the timer and listed first, so it wins when both are due in the same millisecond.
\<close>

definition race_timeout :: "'a promise \<Rightarrow> nat \<Rightarrow> thrown \<Rightarrow> 'a promise" where
  "race_timeout p d e = (if settles_within d p then p else Rejects d e)"

text \<open>\<^verbatim>\<open>s.split(c)\<close> for a one-character separator, and \<^verbatim>\<open>xs.pop()\<close>.\<close>

fun js_split :: "char \<Rightarrow> string \<Rightarrow> string list" where
  "js_split c [] = [[]]"
| "js_split c (x # xs) =
     (if x = c then [] # js_split c xs
      else (case js_split c xs of
              [] \<Rightarrow> [[x]]
            | s # ss \<Rightarrow> (x # s) # ss))"

definition js_pop :: "'a list \<Rightarrow> 'a option" where
  "js_pop xs = (if xs = [] then None else Some (last xs))"

text \<open>Decimal rendering of a number inside a template literal.\<close>

fun string_of_nat :: "nat \<Rightarrow> string" where
  "string_of_nat n =
     (if n < 10 then [''0123456789'' ! n]
      else string_of_nat (n div 10) @ [''0123456789'' ! (n mod 10)])"

declare string_of_nat.simps [simp del]

section \<open>The bridge messages\<close>

text \<open>
  The \<^verbatim>\<open>PluginEvents\<close> interface. Every field of a \<^verbatim>\<open>profile-data\<close> payload is
  optional in the source.
\<close>

record profile_data =
  pd_filename :: "string option"
  pd_path :: "string option"
  pd_base64 :: "string option"
  pd_size :: "nat option"
  pd_mime :: "string option"
  pd_error :: "string option"

datatype message =
    StartProfiling
  | StopProfiling "bool option"
  | ProfilingStarted nat
  | ProfileData profile_data

text \<open>\<^verbatim>\<open>{ error: ... }\<close>: the payload sent from both catch branches.\<close>

definition error_only :: "string \<Rightarrow> profile_data" where
  "error_only msg =
     \<lparr>pd_filename = None, pd_path = None, pd_base64 = None, pd_size = None,
      pd_mime = None, pd_error = Some msg\<rparr>"

section \<open>The runtime hook (useHermesProfilerDevTools.ts)\<close>

text \<open>
  The external collaborators of the hook: the native profiler
  (\<^verbatim>\<open>react-native-release-profiler\<close>) and the file system (\<^verbatim>\<open>react-native-fs\<close>).
  \<open>startProfiling\<close> is the outcome of the synchronous call (\<open>None\<close>: it returned).
  \<open>stopProfiling\<close> either throws synchronously or returns a promise of the path; the
  source guards the path with \<^verbatim>\<open>path?.\<close>, so a missing path is \<open>None\<close>.
  \<open>hasReadFile\<close> is \<^verbatim>\<open>RNFS?.readFile\<close>.
\<close>

record runtime_env =
  startProfiling :: "thrown option"
  stopProfiling :: "bool \<Rightarrow> thrown + string option promise"
  hasReadFile :: bool
  readFile :: "string \<Rightarrow> string promise"
  stat :: "string \<Rightarrow> nat promise"

text \<open>What a handler does to the outside world, in order.\<close>

datatype action = CallStartProfiling | Send message

text \<open>
  \<open>subStart\<close>, the \<^verbatim>\<open>start-profiling\<close> handler. \<open>now\<close> is what \<^verbatim>\<open>Date.now()\<close>
  returns when the acknowledgment is built.
\<close>

definition subStart :: "runtime_env \<Rightarrow> nat \<Rightarrow> action list" where
  "subStart env now =
     CallStartProfiling #
     (case startProfiling env of
        None \<Rightarrow> [Send (ProfilingStarted now)]
      | Some e \<Rightarrow> [Send (ProfileData (error_only (error_text e)))])"

definition STOP_TIMEOUT_MS :: nat where
  "STOP_TIMEOUT_MS = 9000"

definition timeout_error :: thrown where
  "timeout_error = new_Error ''Profiler timeout''"

text \<open>\<^verbatim>\<open>path?.split('/')?.pop?.() || 'hermes-profile.trace'\<close>\<close>

definition suggested_filename :: "string option \<Rightarrow> string" where
  "suggested_filename path =
     (let seg = (case path of
                   None \<Rightarrow> None
                 | Some p \<Rightarrow> js_pop (js_split (CHR ''/'') p))
      in if truthy seg then the seg else ''hermes-profile.trace'')"

text \<open>
  The inner block that reads the profile file: the time it takes and the \<open>base64\<close> and
  \<open>size\<close> it leaves behind, or \<open>None\<close> when one of its awaits never settles. A rejected
  read or stat is caught and logged; the variables assigned before it keep their values.
  \<^verbatim>\<open>Number(stat.size || 0)\<close> is the size itself.
\<close>

definition read_profile ::
  "runtime_env \<Rightarrow> string option \<Rightarrow> (nat \<times> string option \<times> nat option) option" where
  "read_profile env path =
     (if truthy path \<and> hasReadFile env then
        (case readFile env (the path) of
           NeverSettles \<Rightarrow> None
         | Rejects t1 e \<Rightarrow> Some (t1, None, None)
         | Fulfills t1 b \<Rightarrow>
             (case stat env (the path) of
                NeverSettles \<Rightarrow> None
              | Rejects t2 e \<Rightarrow> Some (t1 + t2, Some b, None)
              | Fulfills t2 n \<Rightarrow> Some (t1 + t2, Some b, Some (if n \<noteq> 0 then n else 0))))
      else Some (0, None, None))"

text \<open>
  \<open>subStop\<close>, the \<^verbatim>\<open>stop-profiling\<close> handler: the messages it sends, each with the
  number of milliseconds after the handler was entered. \<open>payload\<close> is
  \<^verbatim>\<open>payload?.saveInDownloads\<close>. Sending over the bridge is taken not to throw. The
  handler sends nothing when it waits for ever on a file-system promise.
\<close>

definition subStop :: "runtime_env \<Rightarrow> bool option \<Rightarrow> (nat \<times> message) list" where
  "subStop env payload =
     (let saveInDownloads = (payload = Some True) in
      case stopProfiling env saveInDownloads of
        Inl e \<Rightarrow> [(0, ProfileData (error_only (error_text e)))]
      | Inr p \<Rightarrow>
          (case race_timeout p STOP_TIMEOUT_MS timeout_error of
             NeverSettles \<Rightarrow> []
           | Rejects t e \<Rightarrow> [(t, ProfileData (error_only (error_text e)))]
           | Fulfills t path \<Rightarrow>
               (let filename = suggested_filename path in
                case read_profile env path of
                  None \<Rightarrow> []
                | Some (dt, base64, size_b) \<Rightarrow>
                    [(t + dt,
                      ProfileData
                        \<lparr>pd_filename = Some filename, pd_path = path, pd_base64 = base64,
                         pd_size = size_b, pd_mime = Some ''application/octet-stream'',
                         pd_error = None\<rparr>)])))"

text \<open>
  The claim about the suggested filename speaks of the last slash-separated segment;
  this is that segment, written without reference to \<open>js_split\<close>: the characters after
  the last slash, or the whole path when it has none.
\<close>

definition after_last_slash :: "string \<Rightarrow> string" where
  "after_last_slash p = rev (takeWhile (\<lambda>x. x \<noteq> CHR ''/'') (rev p))"

definition last_segment_or_default :: "string option \<Rightarrow> string" where
  "last_segment_or_default path =
     (case path of
        None \<Rightarrow> ''hermes-profile.trace''
      | Some p \<Rightarrow>
          if after_last_slash p = [] then ''hermes-profile.trace'' else after_last_slash p)"

text \<open>The file-system promises of an environment all settle.\<close>

definition fs_settles :: "runtime_env \<Rightarrow> bool" where
  "fs_settles env = (\<forall>p. readFile env p \<noteq> NeverSettles \<and> stat env p \<noteq> NeverSettles)"

text \<open>
  An environment whose collaborators answer the same way whatever their argument, for
  evaluating the handlers on concrete inputs.
\<close>

definition const_env ::
  "thrown option \<Rightarrow> thrown + string option promise \<Rightarrow> bool \<Rightarrow> string promise \<Rightarrow>
   nat promise \<Rightarrow> runtime_env" where
  "const_env start stop has rd st =
     \<lparr>startProfiling = start, stopProfiling = (\<lambda>_. stop), hasReadFile = has,
      readFile = (\<lambda>_. rd), stat = (\<lambda>_. st)\<rparr>"

section \<open>The panel (profiler-panel.tsx)\<close>

text \<open>
  The status line is one of a fixed set of texts, one of them built around the error
  string. The texts set after a conversion has finished are not needed here.
\<close>

datatype status_msg =
    MsgProfilingStarted
  | MsgStopping
  | MsgNoResponse
  | MsgError string
  | MsgTransforming
  | MsgNoPathToTransform

record CapturedTrace =
  tr_id :: string
  tr_receivedAt :: nat
  tr_filename :: "string option"
  tr_path :: "string option"
  tr_error :: "string option"
  tr_transforming :: "bool option"
  tr_transformError :: "string option"

text \<open>
  The component's state: the four \<^verbatim>\<open>useState\<close> cells, the \<^verbatim>\<open>pendingStopTimer\<close> ref
  and, from the JavaScript runtime, the stop timers that are scheduled and have neither
  fired nor been cleared. A timer handle returned by \<^verbatim>\<open>setTimeout\<close> is never zero, so
  the test \<^verbatim>\<open>if (pendingStopTimer.current)\<close> is a test against null.
\<close>

record panel =
  isProfiling :: bool
  traces :: "CapturedTrace list"
  isStopping :: bool
  statusMsg :: "status_msg option"
  pendingStopTimer :: "nat option"
  scheduled :: "nat set"

definition initial_panel :: panel where
  "initial_panel =
     \<lparr>isProfiling = False, traces = [], isStopping = False, statusMsg = None,
      pendingStopTimer = None, scheduled = {}\<rparr>"

text \<open>\<open>subStarted\<close>, the \<^verbatim>\<open>profiling-started\<close> handler.\<close>

definition subStarted :: "panel \<Rightarrow> panel" where
  "subStarted s = s\<lparr>isProfiling := True\<rparr>"

text \<open>
  \<open>subData\<close>, the \<^verbatim>\<open>profile-data\<close> handler, up to the point where it hands the path
  to \<open>tryEndpoints\<close>: the new state and, when a transformation is started, the path
  posted. \<open>now\<close> is the clock reading used for the trace's id and receipt time.
\<close>

definition subData :: "nat \<Rightarrow> profile_data \<Rightarrow> panel \<Rightarrow> panel \<times> string option" where
  "subData now data s =
     (let s1 = (case pendingStopTimer s of
                  Some h \<Rightarrow> s\<lparr>scheduled := scheduled s - {h}, pendingStopTimer := None\<rparr>
                | None \<Rightarrow> s);
          s2 = s1\<lparr>isStopping := False, isProfiling := False\<rparr>;
          ident = string_of_nat now;
          filename = pd_filename data
      in if truthy (pd_error data) then
           (s2\<lparr>traces :=
                  \<lparr>tr_id = ident, tr_receivedAt = now, tr_filename = filename,
                   tr_path = None, tr_error = pd_error data, tr_transforming = None,
                   tr_transformError = None\<rparr> # traces s2,
                statusMsg := Some (MsgError (the (pd_error data)))\<rparr>,
            None)
         else
           (let placeholder =
                  \<lparr>tr_id = ident, tr_receivedAt = now, tr_filename = filename,
                   tr_path = pd_path data, tr_error = None, tr_transforming = Some True,
                   tr_transformError = None\<rparr>;
                s3 = s2\<lparr>statusMsg := Some MsgTransforming,
                         traces := placeholder # traces s2\<rparr>
            in if truthy (pd_path data) then (s3, pd_path data)
               else
                 (s3\<lparr>traces :=
                        map (\<lambda>t. if tr_id t = ident
                                  then t\<lparr>tr_transforming := Some False,
                                         tr_transformError := Some ''No path returned''\<rparr>
                                  else t)
                            (traces s3),
                      statusMsg := Some MsgNoPathToTransform\<rparr>,
                  None)))"

text \<open>
  \<open>onStart\<close> and \<open>onStop\<close>. \<open>client\<close> says whether the bridge client is present; \<open>h\<close> is
  the handle that \<^verbatim>\<open>setTimeout\<close> returns for the new stop timer. Each returns the new
  state and the messages sent over the bridge.
\<close>

definition onStart :: "bool \<Rightarrow> panel \<Rightarrow> panel \<times> message list" where
  "onStart client s =
     (if \<not> client \<or> isProfiling s then (s, [])
      else (s\<lparr>isProfiling := True, statusMsg := Some MsgProfilingStarted\<rparr>,
            [StartProfiling]))"

definition onStop :: "bool \<Rightarrow> nat \<Rightarrow> panel \<Rightarrow> panel \<times> message list" where
  "onStop client h s =
     (if \<not> client then (s, [])
      else if isStopping s then (s, [])
      else
        (let s1 = s\<lparr>isStopping := True, isProfiling := False, statusMsg := Some MsgStopping\<rparr>;
             s2 = (case pendingStopTimer s1 of
                     Some h0 \<Rightarrow> s1\<lparr>scheduled := scheduled s1 - {h0}\<rparr>
                   | None \<Rightarrow> s1);
             s3 = s2\<lparr>pendingStopTimer := Some h, scheduled := insert h (scheduled s2)\<rparr>
         in (s3, [StopProfiling (Some False)])))"

text \<open>The callback of the stop timer, ten seconds after \<open>onStop\<close>.\<close>

definition stopTimerFired :: "panel \<Rightarrow> panel" where
  "stopTimerFired s = s\<lparr>isStopping := False, statusMsg := Some MsgNoResponse\<rparr>"

text \<open>
  The button: \<^verbatim>\<open>onPress={isProfiling ? onStop : onStart}\<close>,
  \<^verbatim>\<open>disabled={isStopping}\<close>, and its three labels.
\<close>

definition onPress :: "bool \<Rightarrow> nat \<Rightarrow> panel \<Rightarrow> panel \<times> message list" where
  "onPress client h s =
     (if isStopping s then (s, [])
      else if isProfiling s then onStop client h s
      else onStart client s)"

datatype ui_state = Idle | Profiling | Stopping

definition ui_state :: "panel \<Rightarrow> ui_state" where
  "ui_state s = (if isStopping s then Stopping else if isProfiling s then Profiling else Idle)"

text \<open>
  Everything that can happen to the panel: a press of the button, the two bridge events
  and the expiry of a stop timer. A timer that is no longer scheduled cannot fire.
\<close>

datatype panel_event =
    Press nat
  | RecvProfilingStarted nat
  | RecvProfileData nat profile_data
  | TimerExpires nat

fun panel_step :: "bool \<Rightarrow> panel_event \<Rightarrow> panel \<Rightarrow> panel \<times> message list" where
  "panel_step client (Press h) s = onPress client h s"
| "panel_step client (RecvProfilingStarted ts) s = (subStarted s, [])"
| "panel_step client (RecvProfileData now d) s = (fst (subData now d s), [])"
| "panel_step client (TimerExpires h) s =
     (if h \<in> scheduled s then (stopTimerFired (s\<lparr>scheduled := scheduled s - {h}\<rparr>), [])
      else (s, []))"

fun panel_run :: "bool \<Rightarrow> panel_event list \<Rightarrow> panel \<Rightarrow> panel" where
  "panel_run client [] s = s"
| "panel_run client (ev # evs) s = panel_run client evs (fst (panel_step client ev s))"

definition stop_requests :: "message list \<Rightarrow> nat" where
  "stop_requests ms = length (filter (\<lambda>m. case m of StopProfiling _ \<Rightarrow> True | _ \<Rightarrow> False) ms)"

text \<open>
  The messages the panel sends during a run, and the number of events of a run that end
  a stop request: a \<^verbatim>\<open>profile-data\<close> event or the expiry of a stop timer.
\<close>

fun panel_sent :: "bool \<Rightarrow> panel_event list \<Rightarrow> panel \<Rightarrow> message list" where
  "panel_sent client [] s = []"
| "panel_sent client (ev # evs) s =
     snd (panel_step client ev s) @ panel_sent client evs (fst (panel_step client ev s))"

fun ends_stop :: "panel_event \<Rightarrow> bool" where
  "ends_stop (RecvProfileData now d) = True"
| "ends_stop (TimerExpires h) = True"
| "ends_stop ev = False"

definition stops_ended :: "panel_event list \<Rightarrow> nat" where
  "stops_ended evs = length (filter ends_stop evs)"

section \<open>JSON bodies and HTTP responses\<close>

text \<open>
  The JSON objects exchanged here hold strings and booleans only. An object is the list
  of its fields in the order written; a field is read as in \<^verbatim>\<open>json?.name\<close>.
\<close>

datatype json_value = JStr string | JBool bool

type_synonym json_object = "(string \<times> json_value) list"




text \<open>
  A response of the server: \<^verbatim>\<open>res.status(n).json(obj)\<close>, \<^verbatim>\<open>res.send(content)\<close>, or
  the page that Express itself sends with status 500 when a handler throws.
\<close>

datatype body = JsonBody json_object | RawBody string | ErrorPage string

record http_response =
  status :: nat
  body :: body

definition json_response :: "nat \<Rightarrow> json_object \<Rightarrow> http_response" where
  "json_response n obj = \<lparr>status = n, body = JsonBody obj\<rparr>"

section \<open>The panel's conversion request (tryEndpoints in profiler-panel.tsx)\<close>







section \<open>The dev server (registerDevServerMiddleware.cjs)\<close>

text \<open>
  What the server takes from Node and from the machine it runs on: \<^verbatim>\<open>path.basename\<close>,
  \<^verbatim>\<open>path.join\<close>, \<^verbatim>\<open>process.cwd()\<close>, \<^verbatim>\<open>fs.existsSync\<close>, \<^verbatim>\<open>fs.readFileSync\<close> (which
  throws or returns the content), the base64 encoding of a buffer,
  \<^verbatim>\<open>encodeURIComponent\<close>, and the run of the conversion tool on a path up to its
  \<^verbatim>\<open>close\<close> event. What \<^verbatim>\<open>fs\<close> throws is an \<^verbatim>\<open>Error\<close> object; \<open>Inl\<close> holds its
  message, which is what \<^verbatim>\<open>String(e.message)\<close> gives in the handlers' catch clauses.
\<close>

record child_result =
  exit_code :: "int option"
  child_stdout :: string
  child_stderr :: string

record server_env =
  basename :: "string \<Rightarrow> string"
  path_join :: "string \<Rightarrow> string \<Rightarrow> string"
  cwd :: string
  existsSync :: "string \<Rightarrow> bool"
  readFileSync :: "string \<Rightarrow> string + string"
  toBase64 :: "string \<Rightarrow> string"
  encodeURIComponent :: "string \<Rightarrow> string"
  run_profiler_cli :: "string \<Rightarrow> child_result"

text \<open>\<^verbatim>\<open>name.replace(/\.cpuprofile$/, '-converted.json')\<close>\<close>

definition replace_cpuprofile :: "string \<Rightarrow> string" where
  "replace_cpuprofile name =
     (if suffix ''.cpuprofile'' name
      then take (length name - length ''.cpuprofile'') name @ ''-converted.json''
      else name)"

text \<open>
  The handler of \<^verbatim>\<open>POST /rozenite/hermes/transform\<close>. \<open>body_path\<close> is
  \<^verbatim>\<open>req.body?.path\<close> when that is a string.
\<close>

definition transform :: "server_env \<Rightarrow> string option \<Rightarrow> http_response" where
  "transform env body_path =
     (let rawPath = (case body_path of Some p \<Rightarrow> p | None \<Rightarrow> []) in
      if rawPath = [] then json_response 400 [(''error'', JStr ''missing_path'')]
      else
        (let child = run_profiler_cli env rawPath in
         if exit_code child \<noteq> Some 0 then
           json_response 500
             [(''error'', JStr ''transform_failed''), (''stderr'', JStr (child_stderr child))]
         else
           (let originalFilename = basename env rawPath;
                convertedFilename = replace_cpuprofile originalFilename;
                outputPath = path_join env (cwd env) convertedFilename
            in case readFileSync env outputPath of
                 Inr outputContent \<Rightarrow>
                   json_response 200
                     [(''ok'', JBool True),
                      (''outputPath'', JStr outputPath),
                      (''outputFilename'', JStr convertedFilename),
                      (''outputBase64'', JStr (toBase64 env outputContent)),
                      (''mime'', JStr ''application/json''),
                      (''stdout'', JStr (child_stdout child))]
               | Inl msg \<Rightarrow> json_response 500 [(''error'', JStr msg)])))"


subsection \<open>The filename pattern\<close>

text \<open>
  The regular expression of the serving endpoint is anchored at both ends and is a
  sequence of items, each a literal character or a character class, taken once or
  repeated one or more times (\<^verbatim>\<open>+\<close>). \<open>re_test\<close> is \<^verbatim>\<open>RegExp.prototype.test\<close> for
  expressions of this shape.
\<close>

datatype atom = Lit char | Class "char list"

datatype item = One atom | Plus atom

fun atom_ok :: "atom \<Rightarrow> char \<Rightarrow> bool" where
  "atom_ok (Lit l) c = (c = l)"
| "atom_ok (Class cs) c = (c \<in> set cs)"

fun re_test :: "item list \<Rightarrow> string \<Rightarrow> bool" where
  "re_test [] s = (s = [])"
| "re_test (One a # its) [] = False"
| "re_test (One a # its) (c # s) = (atom_ok a c \<and> re_test its s)"
| "re_test (Plus a # its) [] = False"
| "re_test (Plus a # its) (c # s) =
     (atom_ok a c \<and> (re_test (Plus a # its) s \<or> re_test its s))"

definition literal :: "string \<Rightarrow> item list" where
  "literal s = map (\<lambda>c. One (Lit c)) s"

text \<open>\<^verbatim>\<open>/^profile-[A-F0-9-]+-\d+-[A-F0-9]+-converted\.json$/\<close>\<close>

definition profile_pattern :: "item list" where
  "profile_pattern =
     literal ''profile-'' @
     [Plus (Class ''ABCDEF0123456789-''), One (Lit (CHR ''-'')),
      Plus (Class ''0123456789''), One (Lit (CHR ''-'')),
      Plus (Class ''ABCDEF0123456789'')] @
     literal ''-converted.json''"

subsection \<open>Serving and registering profiles\<close>

text \<open>\<^verbatim>\<open>profilePathCache\<close>, from filename to full path.\<close>

type_synonym cache = "string \<rightharpoonup> string"

text \<open>The handler of \<^verbatim>\<open>GET /rozenite/hermes/profile/:filename\<close>.\<close>

definition get_profile :: "server_env \<Rightarrow> cache \<Rightarrow> string \<Rightarrow> http_response" where
  "get_profile env profilePathCache filename =
     (if \<not> re_test profile_pattern filename then
        json_response 400 [(''error'', JStr ''invalid_filename'')]
      else
        (let profilePath = profilePathCache filename in
         if \<not> truthy profilePath \<or> \<not> existsSync env (the profilePath) then
           json_response 404 [(''error'', JStr ''not_found'')]
         else
           (case readFileSync env (the profilePath) of
              Inr content \<Rightarrow> \<lparr>status = 200, body = RawBody content\<rparr>
            | Inl msg \<Rightarrow> \<lparr>status = 500, body = ErrorPage msg\<rparr>)))"

text \<open>
  The handler of \<^verbatim>\<open>POST /rozenite/hermes/open\<close>. \<open>port\<close> is \<^verbatim>\<open>serverPort\<close>;
  \<open>launch\<close> is the message of the \<^verbatim>\<open>Error\<close> thrown while the browser is launched (by the
  import of \<^verbatim>\<open>open\<close> or by one of its two calls), if any. The cache is written before
  the browser is launched.
\<close>

definition open_profile ::
  "server_env \<Rightarrow> nat \<Rightarrow> string option \<Rightarrow> string option \<Rightarrow> cache \<Rightarrow> cache \<times> http_response" where
  "open_profile env port body_path launch profilePathCache =
     (let filePath = (case body_path of Some p \<Rightarrow> p | None \<Rightarrow> []) in
      if filePath = [] then
        (profilePathCache, json_response 400 [(''error'', JStr ''missing_path'')])
      else
        (let filename = basename env filePath;
             cache' = profilePathCache(filename \<mapsto> filePath);
             profileUrl = ''http://localhost:'' @ string_of_nat port @
                          ''/rozenite/hermes/profile/'' @ filename;
             devtoolsUrl = ''devtools://devtools/bundled/devtools_app.html?loadTimelineFromURL='' @
                           encodeURIComponent env profileUrl
         in case launch of
              None \<Rightarrow>
                (cache', json_response 200
                           [(''ok'', JBool True), (''profileUrl'', JStr profileUrl),
                            (''devtoolsUrl'', JStr devtoolsUrl)])
            | Some msg \<Rightarrow> (cache', json_response 500 [(''error'', JStr msg)])))"

text \<open>The requests the server answers, and the cache after a sequence of them.\<close>

datatype request =
    GetProfile string
  | PostOpen "string option" "string option"
  | PostTransform "string option"

fun handle :: "server_env \<Rightarrow> nat \<Rightarrow> request \<Rightarrow> cache \<Rightarrow> cache \<times> http_response" where
  "handle env port (GetProfile filename) c = (c, get_profile env c filename)"
| "handle env port (PostOpen body_path launch) c = open_profile env port body_path launch c"
| "handle env port (PostTransform body_path) c = (c, transform env body_path)"

fun serve :: "server_env \<Rightarrow> nat \<Rightarrow> request list \<Rightarrow> cache \<Rightarrow> cache" where
  "serve env port [] c = c"
| "serve env port (r # rs) c = serve env port rs (fst (handle env port r c))"

text \<open>A path was registered by an open request of the sequence under a filename.\<close>

definition registered :: "server_env \<Rightarrow> request list \<Rightarrow> string \<Rightarrow> string \<Rightarrow> bool" where
  "registered env rs filename p =
     (p \<noteq> [] \<and> basename env p = filename \<and> (\<exists>launch. PostOpen (Some p) launch \<in> set rs))"

subsection \<open>Starting the server\<close>

text \<open>
  The module-level variables \<^verbatim>\<open>started\<close> and \<^verbatim>\<open>serverPort\<close>, and what the function
  has done to the outside: the number of times the configuration was imported and the
  ports on which a listener was started. The object returned has the fields
  \<^verbatim>\<open>port\<close> and \<^verbatim>\<open>server\<close>.
\<close>

record module_state =
  started :: bool
  serverPort :: "nat option"
  config_imports :: nat
  listeners :: "nat list"

record start_result =
  result_port :: "nat option"
  result_server :: "nat option"

definition initial_module :: module_state where
  "initial_module = \<lparr>started = False, serverPort = None, config_imports = 0, listeners = []\<rparr>"

text \<open>
  \<^verbatim>\<open>startHermesProfilerServer\<close> is an async function: a call runs up to
  \<^verbatim>\<open>await import('./config.mjs')\<close>, where it either has returned already or is
  suspended, and runs the rest when the import is there. \<open>start_enter\<close> is the first
  part (\<open>None\<close>: suspended), \<open>start_resume\<close> the second, with the imported
  \<^verbatim>\<open>DEFAULT_PORT\<close>. The server handle returned is the number of the listener.
\<close>

definition start_enter :: "module_state \<Rightarrow> module_state \<times> start_result option" where
  "start_enter m =
     (if started m then (m, Some \<lparr>result_port = serverPort m, result_server = None\<rparr>)
      else (m\<lparr>started := True, config_imports := Suc (config_imports m)\<rparr>, None))"

definition start_resume :: "nat \<Rightarrow> module_state \<Rightarrow> module_state \<times> start_result" where
  "start_resume DEFAULT_PORT m =
     (let m1 = m\<lparr>serverPort := Some DEFAULT_PORT\<rparr>;
          m2 = m1\<lparr>listeners := listeners m1 @ [the (serverPort m1)]\<rparr>
      in (m2, \<lparr>result_port = serverPort m2, result_server = Some (length (listeners m2))\<rparr>))"

text \<open>A call that runs to completion before anything else happens.\<close>

definition startHermesProfilerServer :: "nat \<Rightarrow> module_state \<Rightarrow> module_state \<times> start_result" where
  "startHermesProfilerServer DEFAULT_PORT m =
     (case start_enter m of
        (m', Some r) \<Rightarrow> (m', r)
      | (m', None) \<Rightarrow> start_resume DEFAULT_PORT m')"

section \<open>Predicates and example inputs used by the theorems\<close>



text \<open>The profile file of a payload could be read and measured.\<close>

definition file_was_read :: "runtime_env \<Rightarrow> string option \<Rightarrow> bool" where
  "file_was_read env path =
     (truthy path \<and> hasReadFile env \<and>
      (case readFile env (the path) of Fulfills t b \<Rightarrow> True | _ \<Rightarrow> False) \<and>
      (case stat env (the path) of Fulfills t n \<Rightarrow> True | _ \<Rightarrow> False))"

text \<open>
  The base64 encoding of a string of bytes, for the example machine below.
\<close>

definition base64_alphabet :: string where
  "base64_alphabet = ''ABCDEFGHIJKLMNOPQRSTUVWXYZabcdefghijklmnopqrstuvwxyz0123456789+/''"

fun base64_bytes :: "nat list \<Rightarrow> string" where
  "base64_bytes [] = []"
| "base64_bytes [a] =
     [base64_alphabet ! (a div 4), base64_alphabet ! ((a mod 4) * 16), CHR ''='', CHR ''='']"
| "base64_bytes [a, b] =
     [base64_alphabet ! (a div 4), base64_alphabet ! ((a mod 4) * 16 + b div 16),
      base64_alphabet ! ((b mod 16) * 4), CHR ''='']"
| "base64_bytes (a # b # c # rest) =
     [base64_alphabet ! (a div 4), base64_alphabet ! ((a mod 4) * 16 + b div 16),
      base64_alphabet ! ((b mod 16) * 4 + c div 64), base64_alphabet ! (c mod 64)] @
     base64_bytes rest"

definition base64_of_string :: "string \<Rightarrow> string" where
  "base64_of_string s = base64_bytes (map of_char s)"

text \<open>
  An example machine for the server: the working directory is \<^verbatim>\<open>/work\<close>, every path
  exists or not as \<open>present\<close> says, every read gives \<open>rd\<close> and every run of the tool gives
  \<open>child\<close>. Its paths have no trailing slash, so the basename is the part after the last
  slash. The URI encoder is the identity here; no theorem depends on it.
\<close>

definition example_server_env :: "bool \<Rightarrow> string + string \<Rightarrow> child_result \<Rightarrow> server_env" where
  "example_server_env present rd child =
     \<lparr>basename = after_last_slash,
      path_join = (\<lambda>a b. a @ ''/'' @ b),
      cwd = ''/work'',
      existsSync = (\<lambda>_. present),
      readFileSync = (\<lambda>_. rd),
      toBase64 = base64_of_string,
      encodeURIComponent = (\<lambda>s. s),
      run_profiler_cli = (\<lambda>_. child)\<rparr>"


definition tool_succeeded :: child_result where
  "tool_succeeded = \<lparr>exit_code = Some 0, child_stdout = ''done'', child_stderr = []\<rparr>"

section \<open>Verification: the runtime hook\<close>

subsection \<open>Auxiliary facts\<close>

lemma error_text_timeout: "error_text timeout_error = ''Profiler timeout''"
  by (simp add: error_text_def timeout_error_def new_Error_def truthy_def)

lemma read_profile_settles:
  assumes "fs_settles env"
  shows "\<exists>dt b s. read_profile env path = Some (dt, b, s) \<and>
           (s \<noteq> None \<longrightarrow> b \<noteq> None) \<and> (b \<noteq> None \<and> s \<noteq> None \<longleftrightarrow> file_was_read env path)"
proof (cases "truthy path \<and> hasReadFile env")
  case False
  then show ?thesis by (auto simp add: read_profile_def file_was_read_def)
next
  case True
  from assms have r: "readFile env (the path) \<noteq> NeverSettles"
    and s: "stat env (the path) \<noteq> NeverSettles"
    by (simp_all add: fs_settles_def)
  show ?thesis
    using True r s
    by (cases "readFile env (the path)"; cases "stat env (the path)")
       (simp_all add: read_profile_def file_was_read_def)
qed

lemma js_split_no_sep: "c \<notin> set s \<Longrightarrow> js_split c s = [s]"
  by (induction s) auto

lemma js_split_nonempty: "js_split c s \<noteq> []"
  by (induction s) (auto split: list.splits)

lemma js_split_two: "c \<in> set s \<Longrightarrow> \<exists>u v ws. js_split c s = u # v # ws"
proof (induction s)
  case Nil
  then show ?case by simp
next
  case (Cons x s)
  show ?case
  proof (cases "x = c")
    case True
    obtain v ws where "js_split c s = v # ws"
      using js_split_nonempty [of c s] by (cases "js_split c s") auto
    with True show ?thesis by simp
  next
    case False
    with Cons.prems have "c \<in> set s" by simp
    then obtain u v ws where "js_split c s = u # v # ws"
      using Cons.IH by blast
    with False show ?thesis by simp
  qed
qed

lemma last_js_split_append: "last (js_split c (a @ c # b)) = last (js_split c b)"
proof (induction a)
  case Nil
  then show ?case by (simp add: js_split_nonempty)
next
  case (Cons x a)
  obtain u v ws where sp: "js_split c (a @ c # b) = u # v # ws"
    using js_split_two [of c "a @ c # b"] by auto
  show ?case
  proof (cases "x = c")
    case True
    then show ?thesis using Cons sp by simp
  next
    case False
    then show ?thesis using Cons sp by simp
  qed
qed

lemma last_js_split: "last (js_split c s) = rev (takeWhile (\<lambda>x. x \<noteq> c) (rev s))"
proof (cases "c \<in> set s")
  case False
  then have tw: "takeWhile (\<lambda>x. x \<noteq> c) (rev s) = rev s"
    by (auto simp: takeWhile_eq_all_conv)
  have l: "js_split c s = [s]"
    using False by (rule js_split_no_sep)
  show ?thesis unfolding l tw by simp
next
  case True
  then obtain a b where s: "s = a @ c # b" and nb: "c \<notin> set b"
    using split_list_last [of c s] by blast
  have "takeWhile (\<lambda>x. x \<noteq> c) (rev b @ c # rev a) = rev b"
    using nb by (subst takeWhile_append2) auto
  then have "rev (takeWhile (\<lambda>x. x \<noteq> c) (rev s)) = b"
    using s by simp
  moreover have "last (js_split c s) = b"
    using s nb by (simp add: last_js_split_append js_split_no_sep)
  ultimately show ?thesis by simp
qed

text \<open>The expression of the source computes the last slash-separated segment.\<close>

lemma suggested_filename_is_last_segment:
  "suggested_filename path = last_segment_or_default path"
  by (cases path)
     (simp_all add: suggested_filename_def last_segment_or_default_def after_last_slash_def
        truthy_def js_pop_def js_split_nonempty last_js_split)

subsection \<open>The start handler\<close>

text \<open>
  Claim C7, as it holds of the code. On a \<^verbatim>\<open>start-profiling\<close> message the runtime
  calls the external \<^verbatim>\<open>startProfiling\<close>. When that call returns, the runtime sends
  exactly one message, a \<^verbatim>\<open>profiling-started\<close> event whose timestamp is the clock
  reading taken when the event is built. When the call throws, the runtime sends no
  \<^verbatim>\<open>profiling-started\<close> event but one \<^verbatim>\<open>profile-data\<close> event carrying the error text.
\<close>

theorem subStart_acknowledges:
  "(startProfiling env = None \<longrightarrow>
      subStart env now = [CallStartProfiling, Send (ProfilingStarted now)]) \<and>
   (\<forall>e. startProfiling env = Some e \<longrightarrow>
      subStart env now =
        [CallStartProfiling, Send (ProfileData (error_only (error_text e)))])"
  by (simp add: subStart_def)

theorem subStart_acknowledges_witness:
  "startProfiling (const_env None (Inr NeverSettles) True NeverSettles NeverSettles) = None
   \<and> subStart (const_env None (Inr NeverSettles) True NeverSettles NeverSettles) 1700000000000
       = [CallStartProfiling, Send (ProfilingStarted 1700000000000)]"
proof -
  have h: "startProfiling (const_env None (Inr NeverSettles) True NeverSettles NeverSettles) = None"
    by (simp add: const_env_def)
  show ?thesis
    using h subStart_acknowledges
            [of "const_env None (Inr NeverSettles) True NeverSettles NeverSettles" 1700000000000]
    by simp
qed

text \<open>
  Claim C7 as stated fails when the external \<^verbatim>\<open>startProfiling\<close> throws: the handler's
  catch branch sends a \<^verbatim>\<open>profile-data\<close> error and no \<^verbatim>\<open>profiling-started\<close> event.
\<close>

theorem subStart_start_throws:
  "subStart (const_env (Some (new_Error ''profiler unavailable'')) (Inr NeverSettles) True
               NeverSettles NeverSettles) 1700000000000
     = [CallStartProfiling, Send (ProfileData (error_only ''profiler unavailable''))]
   \<and> Send (ProfilingStarted 1700000000000)
       \<notin> set (subStart (const_env (Some (new_Error ''profiler unavailable'')) (Inr NeverSettles)
                          True NeverSettles NeverSettles) 1700000000000)"
  by (simp add: subStart_def const_env_def error_text_def new_Error_def truthy_def)

subsection \<open>The stop handler\<close>




text \<open>
  Claim C3. When the promise returned by the external \<^verbatim>\<open>stopProfiling\<close> has not
  settled within 9000 milliseconds (it settles later or never), the handler sends, at
  9000 milliseconds, one \<^verbatim>\<open>profile-data\<close> event whose only field is the error
  \<^verbatim>\<open>Profiler timeout\<close>.
\<close>

theorem subStop_timeout:
  assumes "stopProfiling env (payload = Some True) = Inr p"
    and "\<not> settles_within 9000 p"
  shows "subStop env payload = [(9000, ProfileData (error_only ''Profiler timeout''))]"
  using assms
  by (simp add: subStop_def race_timeout_def error_text_timeout STOP_TIMEOUT_MS_def)

theorem subStop_timeout_witness:
  "stopProfiling (const_env None (Inr (Fulfills 9001 (Some ''/data/late.cpuprofile''))) True
                    (Fulfills 5 ''AAEC'') (Fulfills 1 3)) (Some False = Some True)
     = Inr (Fulfills 9001 (Some ''/data/late.cpuprofile''))
   \<and> \<not> settles_within 9000 (Fulfills 9001 (Some ''/data/late.cpuprofile''))
   \<and> subStop (const_env None (Inr (Fulfills 9001 (Some ''/data/late.cpuprofile''))) True
                 (Fulfills 5 ''AAEC'') (Fulfills 1 3)) (Some False)
       = [(9000, ProfileData (error_only ''Profiler timeout''))]
   \<and> subStop (const_env None (Inr NeverSettles) True NeverSettles NeverSettles) None
       = [(9000, ProfileData (error_only ''Profiler timeout''))]"
proof -
  have a: "stopProfiling (const_env None (Inr (Fulfills 9001 (Some ''/data/late.cpuprofile''))) True
                    (Fulfills 5 ''AAEC'') (Fulfills 1 3)) (Some False = Some True)
     = Inr (Fulfills 9001 (Some ''/data/late.cpuprofile''))"
    by (simp add: const_env_def)
  have b: "\<not> settles_within 9000 (Fulfills 9001 (Some ''/data/late.cpuprofile''))"
    by simp
  have c: "stopProfiling (const_env None (Inr NeverSettles) True NeverSettles NeverSettles)
             (None = Some True) = Inr NeverSettles"
    by (simp add: const_env_def)
  have d: "\<not> settles_within 9000 (NeverSettles :: string option promise)"
    by simp
  show ?thesis
    using a b subStop_timeout [OF a b] subStop_timeout [OF c d] by simp
qed

text \<open>
  Claim C10. When the external stop operation fulfils in time with a path, the filename
  of the \<^verbatim>\<open>profile-data\<close> event is the last slash-separated segment of that path, and
  it is \<^verbatim>\<open>hermes-profile.trace\<close> when the path is missing or that segment is empty
  (an empty path, or a path ending in a slash).
\<close>

theorem subStop_suggested_filename:
  assumes "stopProfiling env (payload = Some True) = Inr (Fulfills t path)"
    and "t \<le> 9000"
    and "fs_settles env"
  shows "\<exists>t' d. subStop env payload = [(t', ProfileData d)] \<and>
           pd_filename d = Some (last_segment_or_default path) \<and>
           (case path of
              None \<Rightarrow> pd_filename d = Some ''hermes-profile.trace''
            | Some p \<Rightarrow>
                pd_filename d =
                  Some (if after_last_slash p = [] then ''hermes-profile.trace''
                        else after_last_slash p))"
proof -
  obtain dt b s where rp: "read_profile env path = Some (dt, b, s)"
    using read_profile_settles [OF assms(3)] by blast
  have "subStop env payload =
          [(t + dt, ProfileData
             \<lparr>pd_filename = Some (last_segment_or_default path), pd_path = path,
              pd_base64 = b, pd_size = s, pd_mime = Some ''application/octet-stream'',
              pd_error = None\<rparr>)]"
    using assms(1,2) rp
    by (simp add: subStop_def race_timeout_def STOP_TIMEOUT_MS_def
          suggested_filename_is_last_segment)
  then show ?thesis
    by (cases path) (simp_all add: last_segment_or_default_def)
qed

theorem subStop_suggested_filename_witness:
  "(\<exists>t' d. subStop (const_env None (Inr (Fulfills 120 (Some ''/data/user/profile-1.cpuprofile'')))
                      True (Fulfills 5 ''AAEC'') (Fulfills 1 3)) None = [(t', ProfileData d)] \<and>
            pd_filename d = Some ''profile-1.cpuprofile'')
   \<and> (\<exists>t' d. subStop (const_env None (Inr (Fulfills 120 (Some ''/data/user/'')))
                      True (Fulfills 5 ''AAEC'') (Fulfills 1 3)) None = [(t', ProfileData d)] \<and>
            pd_filename d = Some ''hermes-profile.trace'')"
proof -
  have s: "fs_settles (const_env None stop True (Fulfills 5 ''AAEC'') (Fulfills 1 3))" for stop
    by (simp add: fs_settles_def const_env_def)
  have a: "stopProfiling (const_env None (Inr (Fulfills 120 (Some ''/data/user/profile-1.cpuprofile'')))
             True (Fulfills 5 ''AAEC'') (Fulfills 1 3)) (None = Some True)
           = Inr (Fulfills 120 (Some ''/data/user/profile-1.cpuprofile''))"
    by (simp add: const_env_def)
  have b: "stopProfiling (const_env None (Inr (Fulfills 120 (Some ''/data/user/'')))
             True (Fulfills 5 ''AAEC'') (Fulfills 1 3)) (None = Some True)
           = Inr (Fulfills 120 (Some ''/data/user/''))"
    by (simp add: const_env_def)
  have t: "(120::nat) \<le> 9000" by simp
  have l1: "last_segment_or_default (Some ''/data/user/profile-1.cpuprofile'') = ''profile-1.cpuprofile''"
    by (simp add: last_segment_or_default_def after_last_slash_def)
  have l2: "last_segment_or_default (Some ''/data/user/'') = ''hermes-profile.trace''"
    by (simp add: last_segment_or_default_def after_last_slash_def)
  show ?thesis
    using subStop_suggested_filename [OF a t s] subStop_suggested_filename [OF b t s] l1 l2
    by auto
qed

section \<open>Verification: the panel\<close>

text \<open>
  Claim C4. Whatever a \<^verbatim>\<open>profile-data\<close> event carries, after the panel's handler has
  run the profiling flag and the stopping flag are both false, so the panel shows the
  idle state; the \<^verbatim>\<open>pendingStopTimer\<close> ref is null, and the stop timer it held is no
  longer scheduled, so it cannot fire later.
\<close>

theorem subData_returns_to_idle:
  "isProfiling (fst (subData now d s)) = False \<and>
   isStopping (fst (subData now d s)) = False \<and>
   ui_state (fst (subData now d s)) = Idle \<and>
   pendingStopTimer (fst (subData now d s)) = None \<and>
   (\<forall>h. pendingStopTimer s = Some h \<longrightarrow> h \<notin> scheduled (fst (subData now d s))) \<and>
   fst (panel_step client (RecvProfileData now d) s) = fst (subData now d s)"
  by (cases "pendingStopTimer s") (simp_all add: subData_def Let_def ui_state_def)

theorem subData_returns_to_idle_witness:
  "isStopping (panel_run True [Press 1, Press 2] initial_panel) \<and>
   pendingStopTimer (panel_run True [Press 1, Press 2] initial_panel) = Some 2 \<and>
   2 \<in> scheduled (panel_run True [Press 1, Press 2] initial_panel) \<and>
   ui_state (fst (subData 1700000000000 (error_only ''Profiler timeout'')
                    (panel_run True [Press 1, Press 2] initial_panel))) = Idle \<and>
   2 \<notin> scheduled (fst (subData 1700000000000 (error_only ''Profiler timeout'')
                    (panel_run True [Press 1, Press 2] initial_panel)))"
proof -
  have a: "isStopping (panel_run True [Press 1, Press 2] initial_panel) \<and>
           pendingStopTimer (panel_run True [Press 1, Press 2] initial_panel) = Some 2 \<and>
           2 \<in> scheduled (panel_run True [Press 1, Press 2] initial_panel)"
    by (simp add: onPress_def onStart_def onStop_def initial_panel_def)
  show ?thesis
    using a subData_returns_to_idle
              [of 1700000000000 "error_only ''Profiler timeout''"
                  "panel_run True [Press 1, Press 2] initial_panel" True]
    by simp
qed

lemma stop_requests_append: "stop_requests (xs @ ys) = stop_requests xs + stop_requests ys"
  by (simp add: stop_requests_def)

text \<open>
  One event: the requests it sends, plus the room left for a further request, do not
  exceed the room there was, plus one when the event ends a stop request.
\<close>

lemma panel_step_outstanding:
  "stop_requests (snd (panel_step client ev s)) +
     (if isStopping (fst (panel_step client ev s)) then 0 else 1)
   \<le> (if ends_stop ev then 1 else 0) + (if isStopping s then 0 else 1)"
  by (cases ev; cases "pendingStopTimer s")
     (simp_all add: onPress_def onStart_def onStop_def stopTimerFired_def subData_def
        subStarted_def stop_requests_def Let_def)

lemma panel_sent_outstanding:
  "stop_requests (panel_sent client evs s) \<le> stops_ended evs + (if isStopping s then 0 else 1)"
proof (induction evs arbitrary: s)
  case Nil
  then show ?case by (simp add: stop_requests_def)
next
  case (Cons ev evs)
  let ?s' = "fst (panel_step client ev s)"
  have "stop_requests (panel_sent client (ev # evs) s)
          = stop_requests (snd (panel_step client ev s)) + stop_requests (panel_sent client evs ?s')"
    by (simp add: stop_requests_append)
  also have "\<dots> \<le> stop_requests (snd (panel_step client ev s)) +
                     (stops_ended evs + (if isStopping ?s' then 0 else 1))"
    using Cons.IH [of ?s'] by simp
  also have "\<dots> \<le> stops_ended evs + ((if ends_stop ev then 1 else 0) + (if isStopping s then 0 else 1))"
    using panel_step_outstanding [of client ev s] by simp
  also have "\<dots> = stops_ended (ev # evs) + (if isStopping s then 0 else 1)"
    by (simp add: stops_ended_def)
  finally show ?case .
qed

text \<open>
  Claim C5. An invocation of the stop action that finds the stopping flag true returns
  without sending anything and without changing the state. No invocation sends more than
  one \<^verbatim>\<open>stop-profiling\<close> message, and one is sent only by an invocation that has a
  client, finds the stopping flag false and sets it true. Over any run of the panel, the
  number of \<^verbatim>\<open>stop-profiling\<close> messages sent exceeds the number of \<^verbatim>\<open>profile-data\<close>
  events and timer expiries by at most one, and not at all when the run starts in the
  stopping state: a second request is never sent while the first is outstanding.
\<close>

theorem onStop_sends_one_request:
  "(isStopping s \<longrightarrow> onStop client h s = (s, [])) \<and>
   stop_requests (snd (onStop client h s)) \<le> 1 \<and>
   (stop_requests (snd (onStop client h s)) = 1 \<longrightarrow>
      client \<and> \<not> isStopping s \<and> isStopping (fst (onStop client h s)) \<and>
      snd (onStop client h s) = [StopProfiling (Some False)]) \<and>
   stop_requests (panel_sent client evs s)
     \<le> stops_ended evs + (if isStopping s then 0 else 1)"
proof -
  have "(isStopping s \<longrightarrow> onStop client h s = (s, [])) \<and>
        stop_requests (snd (onStop client h s)) \<le> 1 \<and>
        (stop_requests (snd (onStop client h s)) = 1 \<longrightarrow>
           client \<and> \<not> isStopping s \<and> isStopping (fst (onStop client h s)) \<and>
           snd (onStop client h s) = [StopProfiling (Some False)])"
    by (cases "pendingStopTimer s") (simp_all add: onStop_def stop_requests_def Let_def)
  then show ?thesis
    using panel_sent_outstanding [of client evs s] by blast
qed

theorem onStop_sends_one_request_witness:
  "isStopping (panel_run True [Press 1, Press 2] initial_panel) \<and>
   onStop True 3 (panel_run True [Press 1, Press 2] initial_panel)
     = (panel_run True [Press 1, Press 2] initial_panel, []) \<and>
   stop_requests (snd (onStop True 2 (panel_run True [Press 1] initial_panel))) = 1 \<and>
   \<not> isStopping (panel_run True [Press 1] initial_panel) \<and>
   snd (onStop True 2 (panel_run True [Press 1] initial_panel)) = [StopProfiling (Some False)] \<and>
   stop_requests (panel_sent True [Press 1, Press 2, Press 3, Press 4] initial_panel) \<le> 1"
proof -
  have a: "isStopping (panel_run True [Press 1, Press 2] initial_panel)"
    by (simp add: onPress_def onStart_def onStop_def initial_panel_def)
  have b: "stop_requests (snd (onStop True 2 (panel_run True [Press 1] initial_panel))) = 1"
    by (simp add: onPress_def onStart_def onStop_def initial_panel_def stop_requests_def)
  have c: "stops_ended [Press 1, Press 2, Press 3, Press 4] = 0"
    by (simp add: stops_ended_def)
  have d: "\<not> isStopping initial_panel"
    by (simp add: initial_panel_def)
  show ?thesis
    using a b c d
      onStop_sends_one_request [of "panel_run True [Press 1, Press 2] initial_panel" True 3 "[]"]
      onStop_sends_one_request [of "panel_run True [Press 1] initial_panel" True 2 "[]"]
      onStop_sends_one_request [of initial_panel True 0 "[Press 1, Press 2, Press 3, Press 4]"]
    by simp
qed




section \<open>Verification: the conversion request\<close>




lemma replace_cpuprofile_other:
  "\<not> suffix ''.cpuprofile'' name \<Longrightarrow> replace_cpuprofile name = name"
  by (simp add: replace_cpuprofile_def)









section \<open>Verification: the dev server\<close>

subsection \<open>The strings the filename pattern accepts\<close>

lemma re_test_One:
  "re_test (One a # its) s \<longleftrightarrow> (\<exists>c t. s = c # t \<and> atom_ok a c \<and> re_test its t)"
  by (cases s) simp_all

lemma re_test_Plus:
  "re_test (Plus a # its) s \<longleftrightarrow>
     (\<exists>u t. s = u @ t \<and> u \<noteq> [] \<and> (\<forall>c \<in> set u. atom_ok a c) \<and> re_test its t)"
proof (induction s)
  case Nil
  then show ?case by simp
next
  case (Cons c s)
  show ?case
  proof
    assume "re_test (Plus a # its) (c # s)"
    then have ok: "atom_ok a c" and alt: "re_test (Plus a # its) s \<or> re_test its s"
      by simp_all
    from alt show "\<exists>u t. c # s = u @ t \<and> u \<noteq> [] \<and> (\<forall>c \<in> set u. atom_ok a c) \<and> re_test its t"
    proof
      assume "re_test (Plus a # its) s"
      then obtain u t where "s = u @ t" "u \<noteq> []" "\<forall>c \<in> set u. atom_ok a c" "re_test its t"
        using Cons.IH by blast
      with ok have "c # s = (c # u) @ t \<and> c # u \<noteq> [] \<and> (\<forall>x \<in> set (c # u). atom_ok a x) \<and> re_test its t"
        by simp
      then show ?thesis by blast
    next
      assume "re_test its s"
      with ok have "c # s = [c] @ s \<and> [c] \<noteq> [] \<and> (\<forall>x \<in> set [c]. atom_ok a x) \<and> re_test its s"
        by simp
      then show ?thesis by blast
    qed
  next
    assume "\<exists>u t. c # s = u @ t \<and> u \<noteq> [] \<and> (\<forall>c \<in> set u. atom_ok a c) \<and> re_test its t"
    then obtain u t where ut: "c # s = u @ t" "u \<noteq> []" "\<forall>c \<in> set u. atom_ok a c" "re_test its t"
      by blast
    then obtain u' where u: "u = c # u'" "s = u' @ t"
      by (cases u) auto
    show "re_test (Plus a # its) (c # s)"
    proof (cases "u' = []")
      case True
      with u ut show ?thesis by simp
    next
      case False
      with u ut have "re_test (Plus a # its) s"
        using Cons.IH by auto
      with u ut show ?thesis by simp
    qed
  qed
qed

lemma re_test_literal:
  "re_test (literal l @ its) s \<longleftrightarrow> (\<exists>t. s = l @ t \<and> re_test its t)"
proof (induction l arbitrary: s)
  case Nil
  then show ?case by (simp add: literal_def)
next
  case (Cons x l)
  have "re_test (literal (x # l) @ its) s \<longleftrightarrow> (\<exists>t. s = x # t \<and> re_test (literal l @ its) t)"
    by (cases s) (auto simp: literal_def)
  then show ?case using Cons.IH by auto
qed

lemma re_test_Plus_Class:
  "re_test (Plus (Class cs) # its) s \<longleftrightarrow>
     (\<exists>u t. s = u @ t \<and> u \<noteq> [] \<and> set u \<subseteq> set cs \<and> re_test its t)"
  unfolding re_test_Plus by (auto simp: subset_eq)

lemma re_test_One_Lit:
  "re_test (One (Lit l) # its) s \<longleftrightarrow> (\<exists>t. s = l # t \<and> re_test its t)"
  by (cases s) auto

lemma re_test_literal_end: "re_test (literal l) s \<longleftrightarrow> s = l"
  using re_test_literal [of l "[]" s] by simp

lemma shape_language:
  "re_test (literal pre @
            [Plus (Class as), One (Lit d1), Plus (Class ds), One (Lit d2), Plus (Class hs)] @
            literal sfx) s \<longleftrightarrow>
     (\<exists>a b c. s = pre @ a @ d1 # b @ d2 # c @ sfx \<and>
        a \<noteq> [] \<and> set a \<subseteq> set as \<and>
        b \<noteq> [] \<and> set b \<subseteq> set ds \<and>
        c \<noteq> [] \<and> set c \<subseteq> set hs)"
proof -
  have r4: "re_test (Plus (Class hs) # literal sfx) t \<longleftrightarrow>
              (\<exists>c. t = c @ sfx \<and> c \<noteq> [] \<and> set c \<subseteq> set hs)" for t
    by (simp add: re_test_Plus_Class re_test_literal_end)
  have r3: "re_test (One (Lit d2) # Plus (Class hs) # literal sfx) t \<longleftrightarrow>
              (\<exists>c. t = d2 # c @ sfx \<and> c \<noteq> [] \<and> set c \<subseteq> set hs)" for t
    by (auto simp add: re_test_One_Lit r4)
  have r2: "re_test (Plus (Class ds) # One (Lit d2) # Plus (Class hs) # literal sfx) t \<longleftrightarrow>
              (\<exists>b c. t = b @ d2 # c @ sfx \<and> b \<noteq> [] \<and> set b \<subseteq> set ds \<and>
                     c \<noteq> [] \<and> set c \<subseteq> set hs)" for t
    unfolding re_test_Plus_Class r3 by blast
  have r1: "re_test (One (Lit d1) # Plus (Class ds) # One (Lit d2) # Plus (Class hs) # literal sfx) t
              \<longleftrightarrow>
              (\<exists>b c. t = d1 # b @ d2 # c @ sfx \<and> b \<noteq> [] \<and> set b \<subseteq> set ds \<and>
                     c \<noteq> [] \<and> set c \<subseteq> set hs)" for t
    unfolding re_test_One_Lit r2 by blast
  have r0: "re_test (Plus (Class as) # One (Lit d1) # Plus (Class ds) # One (Lit d2) #
                     Plus (Class hs) # literal sfx) t \<longleftrightarrow>
              (\<exists>a b c. t = a @ d1 # b @ d2 # c @ sfx \<and> a \<noteq> [] \<and> set a \<subseteq> set as \<and>
                     b \<noteq> [] \<and> set b \<subseteq> set ds \<and> c \<noteq> [] \<and> set c \<subseteq> set hs)" for t
    unfolding re_test_Plus_Class r1 by blast
  have "re_test (literal pre @
            [Plus (Class as), One (Lit d1), Plus (Class ds), One (Lit d2), Plus (Class hs)] @
            literal sfx) s \<longleftrightarrow>
        (\<exists>t. s = pre @ t \<and>
           re_test (Plus (Class as) # One (Lit d1) # Plus (Class ds) # One (Lit d2) #
                    Plus (Class hs) # literal sfx) t)"
    by (simp only: re_test_literal append_Cons append_Nil)
  then show ?thesis
    unfolding r0 by blast
qed

text \<open>
  The pattern accepts exactly the names \<^verbatim>\<open>profile-A-B-C-converted.json\<close> where \<open>A\<close> is a
  non-empty string of upper-case hexadecimal digits and dashes, \<open>B\<close> a non-empty string
  of decimal digits and \<open>C\<close> a non-empty string of upper-case hexadecimal digits.
\<close>

lemma profile_pattern_language:
  "re_test profile_pattern s \<longleftrightarrow>
     (\<exists>a b c. s = ''profile-'' @ a @ CHR ''-'' # b @ CHR ''-'' # c @ ''-converted.json'' \<and>
        a \<noteq> [] \<and> set a \<subseteq> set ''ABCDEF0123456789-'' \<and>
        b \<noteq> [] \<and> set b \<subseteq> set ''0123456789'' \<and>
        c \<noteq> [] \<and> set c \<subseteq> set ''ABCDEF0123456789'')"
  unfolding profile_pattern_def by (rule shape_language)

subsection \<open>The serving endpoint\<close>

lemma open_profile_cache:
  "fst (open_profile env prt bp launch c) fn = Some p \<Longrightarrow>
     c fn = Some p \<or> (bp = Some p \<and> p \<noteq> [] \<and> basename env p = fn)"
  by (cases bp; cases launch) (auto simp: open_profile_def Let_def split: if_splits)

lemma open_profile_registers:
  "p \<noteq> [] \<Longrightarrow> fst (open_profile env prt (Some p) launch c) = c(basename env p \<mapsto> p)"
  by (cases launch) (simp_all add: open_profile_def Let_def)

lemma handle_cache:
  "fst (handle env prt r c) fn = Some p \<Longrightarrow>
     c fn = Some p \<or> (\<exists>launch. r = PostOpen (Some p) launch \<and> p \<noteq> [] \<and> basename env p = fn)"
  by (cases r) (auto dest: open_profile_cache)

lemma serve_cache:
  "serve env prt rs c fn = Some p \<Longrightarrow> c fn = Some p \<or> registered env rs fn p"
proof (induction rs arbitrary: c)
  case Nil
  then show ?case by simp
next
  case (Cons r rs)
  from Cons.prems have "serve env prt rs (fst (handle env prt r c)) fn = Some p" by simp
  then have "fst (handle env prt r c) fn = Some p \<or> registered env rs fn p"
    by (rule Cons.IH)
  then show ?case
  proof
    assume "fst (handle env prt r c) fn = Some p"
    then show ?thesis using handle_cache [of env prt r c fn p]
      by (auto simp: registered_def)
  next
    assume "registered env rs fn p"
    then show ?thesis by (auto simp: registered_def)
  qed
qed

text \<open>
  Claim C1. Let the cache be what any sequence of requests has left of the empty cache.
  A GET for a filename that does not match the pattern is answered with status 400. A
  GET for a filename that matches, when no existing path was registered under that
  filename by an open request, is answered with status 404. File content is sent only
  with status 200, and then the filename matches the pattern and the content is that of
  a path which an open request registered under this filename and which exists.
\<close>

theorem get_profile_serves_only_registered:
  fixes env env' :: server_env and prt :: nat and rs :: "request list" and fn :: string
  defines "c \<equiv> serve env prt rs Map.empty"
  defines "r \<equiv> get_profile env' c fn"
  shows "(\<not> re_test profile_pattern fn \<longrightarrow>
            r = json_response 400 [(''error'', JStr ''invalid_filename'')]) \<and>
         (re_test profile_pattern fn \<and> \<not> (\<exists>p. registered env rs fn p \<and> existsSync env' p) \<longrightarrow>
            r = json_response 404 [(''error'', JStr ''not_found'')]) \<and>
         (\<forall>content. r = \<lparr>status = 200, body = RawBody content\<rparr> \<longrightarrow>
            re_test profile_pattern fn \<and>
            (\<exists>p. registered env rs fn p \<and> c fn = Some p \<and> existsSync env' p \<and>
                 readFileSync env' p = Inr content)) \<and>
         (\<forall>content. body r = RawBody content \<longrightarrow> status r = 200)"
proof (intro conjI impI allI)
  assume "\<not> re_test profile_pattern fn"
  then show "r = json_response 400 [(''error'', JStr ''invalid_filename'')]"
    by (simp add: r_def get_profile_def)
next
  assume a: "re_test profile_pattern fn \<and> \<not> (\<exists>p. registered env rs fn p \<and> existsSync env' p)"
  have "\<not> truthy (c fn) \<or> \<not> existsSync env' (the (c fn))"
  proof (cases "c fn")
    case None
    then show ?thesis by (simp add: truthy_def)
  next
    case (Some p)
    then have "registered env rs fn p"
      using serve_cache [of env prt rs Map.empty fn p] by (simp add: c_def)
    with a Some show ?thesis by auto
  qed
  with a show "r = json_response 404 [(''error'', JStr ''not_found'')]"
    by (auto simp add: r_def get_profile_def Let_def)
next
  fix content
  assume a: "r = \<lparr>status = 200, body = RawBody content\<rparr>"
  show "re_test profile_pattern fn"
    using a by (auto simp: r_def get_profile_def json_response_def split: if_splits)
next
  fix content
  assume a: "r = \<lparr>status = 200, body = RawBody content\<rparr>"
  then obtain p where p: "c fn = Some p" "existsSync env' p" "readFileSync env' p = Inr content"
    by (cases "c fn")
       (auto simp: r_def get_profile_def json_response_def Let_def truthy_def
             split: if_splits sum.splits)
  then have "registered env rs fn p"
    using serve_cache [of env prt rs Map.empty fn p] by (simp add: c_def)
  with p show "\<exists>p. registered env rs fn p \<and> c fn = Some p \<and> existsSync env' p \<and>
                   readFileSync env' p = Inr content"
    by blast
next
  fix content
  assume "body r = RawBody content"
  then show "status r = 200"
    by (auto simp: r_def get_profile_def json_response_def Let_def split: if_splits sum.splits)
qed

lemma ex_match: "re_test profile_pattern ''profile-1A-17-F1-converted.json''"
  by code_simp

lemma ex_match2: "re_test profile_pattern ''profile-2B-18-F2-converted.json''"
  by code_simp

lemma ex_nomatch: "\<not> re_test profile_pattern ''../../etc/passwd''"
  by code_simp

lemma ex_basename: "after_last_slash ''/work/profile-1A-17-F1-converted.json'' = ''profile-1A-17-F1-converted.json''"
  by (simp add: after_last_slash_def)

theorem get_profile_serves_only_registered_witness:
  "get_profile (example_server_env True (Inr ''{}'') tool_succeeded)
     (serve (example_server_env True (Inr ''{}'') tool_succeeded) 9337
        [PostOpen (Some ''/work/profile-1A-17-F1-converted.json'') None] Map.empty)
     ''../../etc/passwd''
     = json_response 400 [(''error'', JStr ''invalid_filename'')]
   \<and> get_profile (example_server_env True (Inr ''{}'') tool_succeeded)
     (serve (example_server_env True (Inr ''{}'') tool_succeeded) 9337
        [PostOpen (Some ''/work/profile-1A-17-F1-converted.json'') None] Map.empty)
     ''profile-2B-18-F2-converted.json''
     = json_response 404 [(''error'', JStr ''not_found'')]
   \<and> get_profile (example_server_env True (Inr ''{}'') tool_succeeded)
     (serve (example_server_env True (Inr ''{}'') tool_succeeded) 9337
        [PostOpen (Some ''/work/profile-1A-17-F1-converted.json'') None] Map.empty)
     ''profile-1A-17-F1-converted.json''
     = \<lparr>status = 200, body = RawBody ''{}''\<rparr>
   \<and> registered (example_server_env True (Inr ''{}'') tool_succeeded)
        [PostOpen (Some ''/work/profile-1A-17-F1-converted.json'') None]
        ''profile-1A-17-F1-converted.json'' ''/work/profile-1A-17-F1-converted.json''"
proof -
  let ?env = "example_server_env True (Inr ''{}'') tool_succeeded"
  let ?rs = "[PostOpen (Some ''/work/profile-1A-17-F1-converted.json'') None]"
  have bn: "basename ?env = after_last_slash"
    by (simp add: example_server_env_def)
  have notreg: "\<not> (\<exists>p. registered ?env ?rs ''profile-2B-18-F2-converted.json'' p \<and> existsSync ?env p)"
    by (auto simp: registered_def bn ex_basename)
  have c: "serve ?env 9337 ?rs Map.empty ''profile-1A-17-F1-converted.json''
             = Some ''/work/profile-1A-17-F1-converted.json''"
    by (simp add: open_profile_registers bn ex_basename)
  have served: "get_profile ?env (serve ?env 9337 ?rs Map.empty) ''profile-1A-17-F1-converted.json''
                  = \<lparr>status = 200, body = RawBody ''{}''\<rparr>"
    unfolding get_profile_def using ex_match c
    by (simp add: truthy_def example_server_env_def)
  have reg: "registered ?env ?rs ''profile-1A-17-F1-converted.json'' ''/work/profile-1A-17-F1-converted.json''"
    by (auto simp: registered_def bn ex_basename)
  show ?thesis
    using get_profile_serves_only_registered [of "''../../etc/passwd''" ?env ?env 9337 ?rs]
      get_profile_serves_only_registered [of "''profile-2B-18-F2-converted.json''" ?env ?env 9337 ?rs]
      get_profile_serves_only_registered [of "''profile-1A-17-F1-converted.json''" ?env ?env 9337 ?rs]
      ex_nomatch ex_match2 notreg served reg
    by blast
qed

text \<open>
  Claim C9 on two calls made one right after the other. The first call sets the
  \<^verbatim>\<open>started\<close> flag and is suspended at the import of the configuration, before it
  has recorded the port. The second call finds the flag set and returns at once, with a
  null server handle, without a second import or listener, but with no port; the first
  call, once resumed, returns the port 9337.
\<close>

theorem start_second_call_in_flight:
  "start_enter initial_module
     = (\<lparr>started = True, serverPort = None, config_imports = 1, listeners = []\<rparr>, None)
   \<and> start_enter \<lparr>started = True, serverPort = None, config_imports = 1, listeners = []\<rparr>
     = (\<lparr>started = True, serverPort = None, config_imports = 1, listeners = []\<rparr>,
        Some \<lparr>result_port = None, result_server = None\<rparr>)
   \<and> start_resume 9337 \<lparr>started = True, serverPort = None, config_imports = 1, listeners = []\<rparr>
     = (\<lparr>started = True, serverPort = Some 9337, config_imports = 1, listeners = [9337]\<rparr>,
        \<lparr>result_port = Some 9337, result_server = Some 1\<rparr>)"
  by (simp add: start_enter_def start_resume_def initial_module_def)

text \<open>
  Once the first call has completed, every further call leaves the module state as it is
  (one import, one listener) and returns the recorded port with a null server handle.
\<close>

theorem start_after_completion:
  "fst (startHermesProfilerServer p initial_module)
     = \<lparr>started = True, serverPort = Some p, config_imports = 1, listeners = [p]\<rparr>
   \<and> snd (startHermesProfilerServer p initial_module)
     = \<lparr>result_port = Some p, result_server = Some 1\<rparr>
   \<and> startHermesProfilerServer p' (fst (startHermesProfilerServer p initial_module))
     = (fst (startHermesProfilerServer p initial_module),
        \<lparr>result_port = Some p, result_server = None\<rparr>)"
  by (simp add: startHermesProfilerServer_def start_enter_def start_resume_def
        initial_module_def)

end
